theory Spec2Isabelle
  imports Main
begin

section \<open>Python strings\<close>

text \<open>
  The installer is Python. Its strings are modelled as \<^typ>\<open>string\<close> over ASCII text, which
  is what git, conda and the HTTP headers the code scrapes consist of. The helpers below are
  the library operations the source applies to such text: \<^verbatim>\<open>str.split()\<close>,
  \<^verbatim>\<open>str.strip()\<close>, \<^verbatim>\<open>int(s)\<close>, \<^verbatim>\<open>str.lower()\<close>, the substring test
  \<^verbatim>\<open>a in b\<close>, \<^verbatim>\<open>sep.join(xs)\<close> and the decimal rendering of an integer in an
  f-string.
\<close>

definition isspace :: "char \<Rightarrow> bool" where
  "isspace c = (c \<in> set [CHR 0x09, CHR 0x0A, CHR 0x0B, CHR 0x0C, CHR 0x0D,
                           CHR 0x1C, CHR 0x1D, CHR 0x1E, CHR 0x1F, CHR 0x20])"

definition isdigit :: "char \<Rightarrow> bool" where
  "isdigit c = (c \<in> set ''0123456789'')"

definition digit_value :: "char \<Rightarrow> int" where
  "digit_value c = int (of_char c) - 48"

definition digit_char :: "nat \<Rightarrow> char" where
  "digit_char d = ''0123456789'' ! d"

text \<open>\<^verbatim>\<open>s.split()\<close>: the maximal runs of non-whitespace characters, in order.\<close>

fun words_from :: "string \<Rightarrow> string \<Rightarrow> string list" where
  "words_from w [] = (if w = [] then [] else [w])"
| "words_from w (c # cs) =
     (if isspace c then (if w = [] then words_from [] cs else w # words_from [] cs)
      else words_from (w @ [c]) cs)"

definition split_ws :: "string \<Rightarrow> string list" where
  "split_ws s = words_from [] s"

definition strip :: "string \<Rightarrow> string" where
  "strip s = rev (dropWhile isspace (rev (dropWhile isspace s)))"

text \<open>
  \<^verbatim>\<open>int(s)\<close> in base ten: surrounding whitespace is dropped, one sign is allowed, and
  single underscores may separate digits. \<^term>\<open>None\<close> stands for \<^verbatim>\<open>ValueError\<close>.
\<close>

fun digits_from :: "int \<Rightarrow> string \<Rightarrow> int option" where
  "digits_from acc [] = Some acc"
| "digits_from acc (c # cs) =
     (if isdigit c then digits_from (10 * acc + digit_value c) cs
      else if c = CHR ''_'' then
        (case cs of [] \<Rightarrow> None
         | d # ds \<Rightarrow> if isdigit d then digits_from acc cs else None)
      else None)"

definition unsigned_int :: "string \<Rightarrow> int option" where
  "unsigned_int s =
     (case s of [] \<Rightarrow> None | c # cs \<Rightarrow> if isdigit c then digits_from 0 s else None)"

definition py_int :: "string \<Rightarrow> int option" where
  "py_int s =
     (case strip s of
        [] \<Rightarrow> None
      | c # cs \<Rightarrow>
          if c = CHR ''-'' then map_option uminus (unsigned_int cs)
          else if c = CHR ''+'' then unsigned_int cs
          else unsigned_int (c # cs))"

definition lower_char :: "char \<Rightarrow> char" where
  "lower_char c =
     (case map_of (zip ''ABCDEFGHIJKLMNOPQRSTUVWXYZ'' ''abcdefghijklmnopqrstuvwxyz'') c of
        None \<Rightarrow> c | Some l \<Rightarrow> l)"

definition lower :: "string \<Rightarrow> string" where
  "lower s = map lower_char s"

fun startswith :: "'a list \<Rightarrow> 'a list \<Rightarrow> bool" where
  "startswith s [] = True"
| "startswith [] (p # ps) = False"
| "startswith (c # cs) (p # ps) = (c = p \<and> startswith cs ps)"

text \<open>\<^verbatim>\<open>sub in s\<close> on strings: \<^term>\<open>sub\<close> occurs in \<^term>\<open>s\<close> as a contiguous block.\<close>

fun contains :: "'a list \<Rightarrow> 'a list \<Rightarrow> bool" where
  "contains sub [] = (sub = [])"
| "contains sub (c # cs) = (startswith (c # cs) sub \<or> contains sub cs)"

fun join :: "string \<Rightarrow> string list \<Rightarrow> string" where
  "join sep [] = []"
| "join sep [x] = x"
| "join sep (x # y # ys) = x @ sep @ join sep (y # ys)"

fun str_nat :: "nat \<Rightarrow> string" where
  "str_nat n = (if n < 10 then [digit_char n] else str_nat (n div 10) @ [digit_char (n mod 10)])"

definition str_int :: "int \<Rightarrow> string" where
  "str_int i = (if i < 0 then CHR ''-'' # str_nat (nat (- i)) else str_nat (nat i))"

section \<open>Exceptions and callbacks\<close>

text \<open>
  \<^verbatim>\<open>installer_core.py\<close> declares one exception class of its own, \<^verbatim>\<open>InstallationError\<close>.
  Every other exception that can leave one of its functions (an \<^verbatim>\<open>OSError\<close> from the file
  system, a failure to launch a subprocess, whatever a callback raises) is
  \<^term>\<open>OtherException\<close>; both carry the text that \<^verbatim>\<open>str(e)\<close> gives. A function that may
  raise returns \<open>exn + 'a\<close>, with \<^term>\<open>Inl\<close> for the exception that reaches its caller.

  What the operating system, the network and the external programs do is an input of the
  model: a record of outcomes, where \<^term>\<open>Some m\<close> or \<^term>\<open>Inl m\<close> says that the library call
  raises an exception with text \<^term>\<open>m\<close>.

  A progress callback is called with \<^verbatim>\<open>(current, total)\<close>; it may raise. The model records
  every invocation, in order.
\<close>

datatype exn = InstallationError string | OtherException string

type_synonym callback = "int \<Rightarrow> int \<Rightarrow> string option"

type_synonym progress_call = "int \<times> int"

section \<open>Downloader\<close>

text \<open>
  \<^verbatim>\<open>download_file(url, destination, progress_callback=None)\<close>, lines 137 to 172 of
  \<^verbatim>\<open>installer_core.py\<close>. The response of \<^verbatim>\<open>urlopen\<close> has an optional
  \<^verbatim>\<open>Content-Length\<close> header and a body; \<^verbatim>\<open>response.read(chunk_size)\<close> hands out the
  next \<^verbatim>\<open>chunk_size\<close> bytes of what is left, and the empty chunk ends the loop. The
  \<open>k\<close>-th read and the \<open>k\<close>-th write may fail.
\<close>

record response =
  content_length :: "string option"
  body :: string
  read_error :: "nat \<Rightarrow> string option"

record download_env =
  makedirs_error :: "string option"
  urlopen_result :: "string + response"
  open_error :: "string option"
  write_error :: "nat \<Rightarrow> string option"

text \<open>
  The \<^verbatim>\<open>while True\<close> loop. Its arguments are the chunk size, the failure oracles, the
  callback, \<^verbatim>\<open>file_size\<close>, the number of the read, the unread rest of the body,
  \<^verbatim>\<open>downloaded\<close> and the callback invocations so far. The first component of the result
  is the text of the exception that stopped the loop, if one did.
\<close>

function fetch_chunks ::
  "nat \<Rightarrow> (nat \<Rightarrow> string option) \<Rightarrow> (nat \<Rightarrow> string option) \<Rightarrow> callback option \<Rightarrow> int \<Rightarrow>
   nat \<Rightarrow> string \<Rightarrow> int \<Rightarrow> progress_call list \<Rightarrow> string option \<times> progress_call list" where
  "fetch_chunks chunk_size rd wr cb file_size k rest downloaded calls =
     (case rd k of
        Some e \<Rightarrow> (Some e, calls)
      | None \<Rightarrow>
          if take chunk_size rest = [] then (None, calls)
          else
            (case wr k of
               Some e \<Rightarrow> (Some e, calls)
             | None \<Rightarrow>
                 (case cb of
                    None \<Rightarrow>
                      fetch_chunks chunk_size rd wr cb file_size (Suc k) (drop chunk_size rest)
                        (downloaded + int (length (take chunk_size rest))) calls
                  | Some f \<Rightarrow>
                      (case f (downloaded + int (length (take chunk_size rest))) file_size of
                         Some e \<Rightarrow>
                           (Some e,
                            calls @ [(downloaded + int (length (take chunk_size rest)), file_size)])
                       | None \<Rightarrow>
                           fetch_chunks chunk_size rd wr cb file_size (Suc k)
                             (drop chunk_size rest)
                             (downloaded + int (length (take chunk_size rest)))
                             (calls @
                              [(downloaded + int (length (take chunk_size rest)), file_size)])))))"
  by pat_completeness auto
termination
  by (relation "measure (\<lambda>(chunk_size, rd, wr, cb, file_size, k, rest, downloaded, calls).
        length rest)") auto

declare fetch_chunks.simps [simp del]

text \<open>
  \<^verbatim>\<open>os.makedirs\<close> is called before the \<^verbatim>\<open>try\<close> block, so its exception reaches the
  caller; everything from \<^verbatim>\<open>urlopen\<close> on is inside it and ends in \<^verbatim>\<open>return False\<close>.
  The header is read by \<^verbatim>\<open>int(response.info().get('Content-Length', 0))\<close>. The chunk
  size is the constant \<^verbatim>\<open>1024 * 1024\<close> of the source, a parameter of
  \<open>download_file_with\<close>.
\<close>

definition download_file_with ::
  "nat \<Rightarrow> download_env \<Rightarrow> callback option \<Rightarrow> (exn + bool) \<times> progress_call list" where
  "download_file_with chunk_size env cb =
     (case makedirs_error env of
        Some e \<Rightarrow> (Inl (OtherException e), [])
      | None \<Rightarrow>
          (case urlopen_result env of
             Inl e \<Rightarrow> (Inr False, [])
           | Inr resp \<Rightarrow>
               (case (case content_length resp of None \<Rightarrow> Some 0 | Some h \<Rightarrow> py_int h) of
                  None \<Rightarrow> (Inr False, [])
                | Some file_size \<Rightarrow>
                    (case (case cb of None \<Rightarrow> None | Some f \<Rightarrow> f 0 file_size) of
                       Some e \<Rightarrow> (Inr False, [(0, file_size)])
                     | None \<Rightarrow>
                         (case open_error env of
                            Some e \<Rightarrow> (Inr False, (case cb of None \<Rightarrow> [] | Some f \<Rightarrow> [(0, file_size)]))
                          | None \<Rightarrow>
                              (case fetch_chunks chunk_size (read_error resp) (write_error env) cb
                                      file_size 0 (body resp) 0
                                      (case cb of None \<Rightarrow> [] | Some f \<Rightarrow> [(0, file_size)]) of
                                 (Some e, calls) \<Rightarrow> (Inr False, calls)
                               | (None, calls) \<Rightarrow> (Inr True, calls)))))))"

definition download_file :: "download_env \<Rightarrow> callback option \<Rightarrow> (exn + bool) \<times> progress_call list" where
  "download_file = download_file_with (1024 * 1024)"

section \<open>Program locator and prerequisite checks\<close>

text \<open>
  The machine the installer runs on: the \<^verbatim>\<open>os.path\<close> functions the code calls (library
  code, taken as given), the home directory \<^verbatim>\<open>os.path.expanduser("~")\<close>, which paths
  exist, what \<^verbatim>\<open>where name\<close> prints and returns, and the values enumerated under the
  registry key \<^verbatim>\<open>VS7\<close> of Visual Studio (none when the key cannot be
  opened: the source passes over that exception).
\<close>

record host =
  path_join :: "string \<Rightarrow> string \<Rightarrow> string"
  dirname :: "string \<Rightarrow> string"
  expandvars :: "string \<Rightarrow> string"
  home_dir :: string
  path_exists :: "string \<Rightarrow> bool"
  where_result :: "string \<Rightarrow> int \<times> string"
  vs7_values :: "(string \<times> string) list"

definition bs :: string where
  "bs = [CHR 0x5C]"

text \<open>
  \<^verbatim>\<open>find_program(program_name, common_paths)\<close>, lines 42 to 63: the first line of the
  stripped output of \<^verbatim>\<open>where\<close> when it exits with 0, otherwise the first candidate that
  exists after \<^verbatim>\<open>os.path.expandvars\<close>, otherwise \<^verbatim>\<open>None\<close>.
\<close>

definition find_program :: "host \<Rightarrow> string \<Rightarrow> string list \<Rightarrow> string option" where
  "find_program h program_name common_paths =
     (case where_result h program_name of
        (rc, out) \<Rightarrow>
          if rc = 0 then Some (takeWhile (\<lambda>c. c \<noteq> CHR 0x0A) (strip out))
          else find (path_exists h) (map (expandvars h) common_paths))"

definition git_common_paths :: "string list" where
  "git_common_paths =
     [''%ProgramFiles%'' @ bs @ ''Git'' @ bs @ ''cmd'' @ bs @ ''git.exe'',
      ''%ProgramFiles(x86)%'' @ bs @ ''Git'' @ bs @ ''cmd'' @ bs @ ''git.exe'',
      ''%LocalAppData%'' @ bs @ ''Programs'' @ bs @ ''Git'' @ bs @ ''cmd'' @ bs @ ''git.exe'']"

text \<open>
  \<^verbatim>\<open>check_git()\<close>, lines 65 to 83. \<^verbatim>\<open>if git_path:\<close> is false for \<^verbatim>\<open>None\<close> and for
  the empty string.
\<close>

definition check_git :: "host \<Rightarrow> string option" where
  "check_git h =
     (case find_program h ''git.exe'' git_common_paths of
        None \<Rightarrow> None
      | Some p \<Rightarrow> if p \<noteq> [] then Some p else None)"

definition vs_common_paths :: "string list" where
  "vs_common_paths =
     [''C:'' @ bs @ ''Program Files'' @ bs @ ''Microsoft Visual Studio'' @ bs @ ''2022'',
      ''C:'' @ bs @ ''Program Files (x86)'' @ bs @ ''Microsoft Visual Studio'' @ bs @ ''2022'']"

text \<open>
  \<^verbatim>\<open>check_visual_studio()\<close>, lines 107 to 135: one of the two fixed directories if it
  exists, otherwise the value of the first registry entry, otherwise \<^verbatim>\<open>None\<close>.
\<close>

definition check_visual_studio :: "host \<Rightarrow> string option" where
  "check_visual_studio h =
     (case find (path_exists h) vs_common_paths of
        Some p \<Rightarrow> Some p
      | None \<Rightarrow> (case vs7_values h of [] \<Rightarrow> None | (name, v) # rest \<Rightarrow> Some v))"

section \<open>Prerequisite installers\<close>

text \<open>
  An installer downloads, runs the downloaded program and looks at the machine afterwards.
  \<open>run_result\<close> gives, for a command line, what \<^verbatim>\<open>subprocess.run\<close> does with it: it
  fails to launch the program (\<^term>\<open>Inl\<close>) or the program exits with a code. With
  \<^verbatim>\<open>check=True\<close> a non-zero code raises \<^verbatim>\<open>CalledProcessError\<close>, which each installer
  catches and turns into an \<^verbatim>\<open>InstallationError\<close> naming the code. \<open>after\<close> is the machine
  once the installer program has run.
\<close>

record install_env =
  dl :: download_env
  run_result :: "string list \<Rightarrow> string + int"
  after :: host

text \<open>\<^verbatim>\<open>install_git(temp_dir, progress_callback)\<close>, lines 174 to 202.\<close>

definition install_git ::
  "install_env \<Rightarrow> string \<Rightarrow> callback option \<Rightarrow> (exn + bool) \<times> progress_call list" where
  "install_git env temp_dir cb =
     (case download_file (dl env) cb of
        (Inl e, calls) \<Rightarrow> (Inl e, calls)
      | (Inr success, calls) \<Rightarrow>
          if \<not> success then (Inl (InstallationError ''Failed to download Git installer''), calls)
          else
            (case run_result env
                    [path_join (after env) temp_dir ''git_installer.exe'',
                     ''/VERYSILENT'', ''/NORESTART''] of
               Inl e \<Rightarrow> (Inl (OtherException e), calls)
             | Inr rc \<Rightarrow>
                 if rc \<noteq> 0 then
                   (Inl (InstallationError
                      (''Git installation failed with exit code '' @ str_int rc)), calls)
                 else
                   (case check_git (after env) of
                      Some p \<Rightarrow> (Inr True, calls)
                    | None \<Rightarrow>
                        (Inl (InstallationError ''Git installation could not be verified''),
                         calls))))"

text \<open>
  \<^verbatim>\<open>install_miniconda(temp_dir, progress_callback)\<close>, lines 204 to 239. The presence check
  is \<^verbatim>\<open>os.path.exists\<close> on \<^verbatim>\<open>conda.exe\<close> under the directory the installer was told to
  use; when it is there, \<^verbatim>\<open>conda init cmd.exe\<close> runs with \<^verbatim>\<open>check=True\<close> inside the
  same \<^verbatim>\<open>try\<close>, and the function returns the path.
\<close>

definition miniconda_install_path :: "host \<Rightarrow> string" where
  "miniconda_install_path h = path_join h (home_dir h) ''miniconda3_bitnet''"

definition miniconda_conda_exe :: "host \<Rightarrow> string" where
  "miniconda_conda_exe h =
     path_join h (path_join h (miniconda_install_path h) ''Scripts'') ''conda.exe''"

definition install_miniconda ::
  "install_env \<Rightarrow> string \<Rightarrow> callback option \<Rightarrow> (exn + string) \<times> progress_call list" where
  "install_miniconda env temp_dir cb =
     (case download_file (dl env) cb of
        (Inl e, calls) \<Rightarrow> (Inl e, calls)
      | (Inr success, calls) \<Rightarrow>
          if \<not> success then
            (Inl (InstallationError ''Failed to download Miniconda installer''), calls)
          else
            (case run_result env
                    [path_join (after env) temp_dir ''miniconda_installer.exe'',
                     ''/S'', ''/RegisterPython=0'', ''/AddToPath=0'',
                     ''/D='' @ miniconda_install_path (after env)] of
               Inl e \<Rightarrow> (Inl (OtherException e), calls)
             | Inr rc \<Rightarrow>
                 if rc \<noteq> 0 then
                   (Inl (InstallationError
                      (''Miniconda installation failed with exit code '' @ str_int rc)), calls)
                 else if path_exists (after env) (miniconda_conda_exe (after env)) then
                   (case run_result env [miniconda_conda_exe (after env), ''init'', ''cmd.exe''] of
                      Inl e \<Rightarrow> (Inl (OtherException e), calls)
                    | Inr rc' \<Rightarrow>
                        if rc' \<noteq> 0 then
                          (Inl (InstallationError
                             (''Miniconda installation failed with exit code '' @ str_int rc')),
                           calls)
                        else (Inr (miniconda_conda_exe (after env)), calls))
                 else
                   (Inl (InstallationError ''Miniconda installation could not be verified''),
                    calls)))"

text \<open>
  \<^verbatim>\<open>install_vs_build_tools(temp_dir, progress_callback)\<close>, lines 241 to 272.
  \<^verbatim>\<open>if check_visual_studio():\<close> is false for \<^verbatim>\<open>None\<close> and for an empty registry value.
\<close>

definition install_vs_build_tools ::
  "install_env \<Rightarrow> string \<Rightarrow> callback option \<Rightarrow> (exn + bool) \<times> progress_call list" where
  "install_vs_build_tools env temp_dir cb =
     (case download_file (dl env) cb of
        (Inl e, calls) \<Rightarrow> (Inl e, calls)
      | (Inr success, calls) \<Rightarrow>
          if \<not> success then
            (Inl (InstallationError ''Failed to download Visual Studio Build Tools installer''),
             calls)
          else
            (case run_result env
                    [path_join (after env) temp_dir ''vs_buildtools.exe'',
                     ''--quiet'', ''--norestart'', ''--wait'',
                     ''--add'', ''Microsoft.VisualStudio.Workload.VCTools'',
                     ''--includeRecommended''] of
               Inl e \<Rightarrow> (Inl (OtherException e), calls)
             | Inr rc \<Rightarrow>
                 if rc \<noteq> 0 then
                   (Inl (InstallationError
                      (''Visual Studio Build Tools installation failed with exit code '' @
                       str_int rc)), calls)
                 else
                   (case check_visual_studio (after env) of
                      None \<Rightarrow>
                        (Inl (InstallationError
                           ''Visual Studio Build Tools installation could not be verified''),
                         calls)
                    | Some p \<Rightarrow>
                        if p \<noteq> [] then (Inr True, calls)
                        else
                          (Inl (InstallationError
                             ''Visual Studio Build Tools installation could not be verified''),
                           calls))))"

section \<open>Repository provisioner\<close>

text \<open>
  \<^verbatim>\<open>clone_bitnet(install_dir, progress_callback=None)\<close>, lines 274 to 369. What the
  function finds and what git does are inputs: whether \<^verbatim>\<open>os.makedirs\<close> fails, the return
  code and standard error of \<^verbatim>\<open>git pull\<close>, the standard-error lines and return code of
  the clone started with \<^verbatim>\<open>Popen\<close> (the lines as the iteration over
  \<^verbatim>\<open>clone_process.stderr\<close> yields them, line ends included), the return code and
  standard error of the clone run without a callback, and whether the target holds a
  \<^verbatim>\<open>.git\<close> entry once a clone subprocess has run.

  The state that lasts from one call to the next is the \<^verbatim>\<open>.git\<close> entry of the target
  directory, together with the list of git command lines run so far.
\<close>

record git_env =
  mkdir_error :: "string option"
  pull_result :: "string + int \<times> string"
  clone_popen :: "string + string list \<times> int"
  clone_run :: "string + int \<times> string"
  git_after_clone :: bool

record repo =
  dot_git :: bool
  git_commands :: "string list list"

definition BITNET_REPO :: string where
  "BITNET_REPO = ''https://github.com/microsoft/BitNet.git''"

text \<open>
  \<^verbatim>\<open>int(line.split("%")[0].split()[-1])\<close>: the text before the first percent sign, its
  last whitespace-separated word, read as an integer. \<^term>\<open>None\<close> is the \<^verbatim>\<open>IndexError\<close>
  of an empty word list or the \<^verbatim>\<open>ValueError\<close> of \<^verbatim>\<open>int\<close>; the bare
  \<^verbatim>\<open>except\<close> around it passes over both.
\<close>

definition parse_percent :: "string \<Rightarrow> int option" where
  "parse_percent line =
     (case split_ws (takeWhile (\<lambda>c. c \<noteq> CHR ''%'') line) of
        [] \<Rightarrow> None
      | w # ws \<Rightarrow> py_int (last (w # ws)))"

text \<open>
  The loop over the standard-error lines. A line that has both \<^verbatim>\<open>Receiving objects\<close> and
  a percent sign and whose percentage parses leads to \<^verbatim>\<open>progress_callback(percent, 100)\<close>;
  an exception of the callback is passed over like a parse failure, so the loop only needs
  the invocations.
\<close>

fun scan_lines :: "string list \<Rightarrow> progress_call list" where
  "scan_lines [] = []"
| "scan_lines (line # ls) =
     (if contains ''Receiving objects'' line \<and> contains ''%'' line then
        (case parse_percent line of
           None \<Rightarrow> scan_lines ls
         | Some percent \<Rightarrow> (percent, 100) # scan_lines ls)
      else scan_lines ls)"

text \<open>
  The classification of a failed clone, lines 334 to 344: the message of the
  \<^verbatim>\<open>InstallationError\<close> raised for a return code and the buffered lines.
\<close>

definition clone_failure_message :: "int \<Rightarrow> string list \<Rightarrow> string" where
  "clone_failure_message rc all_output =
     (let error_msg = join [CHR 0x0A] all_output in
      if contains ''could not create work tree'' (lower error_msg) then
        ''Git clone failed: Could not create work tree. Check folder permissions.''
      else if contains ''authentication failed'' (lower error_msg) then
        ''Git clone failed: Authentication failed. Check network connection.''
      else
        ''Git clone failed with exit code '' @ str_int rc @ ''. Details: '' @ error_msg)"

text \<open>
  The outer \<^verbatim>\<open>except Exception\<close> of lines 367 to 369 catches whatever the body raises,
  the \<^verbatim>\<open>InstallationError\<close>s of the body included, and raises an
  \<^verbatim>\<open>InstallationError\<close> whose message is the prefix below followed by \<^verbatim>\<open>str(e)\<close>.
\<close>

definition clone_wrap :: "string \<Rightarrow> exn + bool" where
  "clone_wrap m = Inl (InstallationError (''Failed to clone BitNet repository: '' @ m))"

definition pull_command :: "string list" where
  "pull_command = [''git'', ''pull'']"

definition clone_command_progress :: "string \<Rightarrow> string list" where
  "clone_command_progress install_dir =
     [''git'', ''clone'', ''--recursive'', ''--progress'', BITNET_REPO, install_dir]"

definition clone_command_plain :: "string \<Rightarrow> string list" where
  "clone_command_plain install_dir = [''git'', ''clone'', ''--recursive'', BITNET_REPO, install_dir]"

definition ran :: "string list \<Rightarrow> repo \<Rightarrow> repo" where
  "ran cmd w = w\<lparr>git_commands := git_commands w @ [cmd]\<rparr>"

definition clone_bitnet ::
  "git_env \<Rightarrow> string \<Rightarrow> callback option \<Rightarrow> repo \<Rightarrow> (exn + bool) \<times> progress_call list \<times> repo" where
  "clone_bitnet env install_dir cb w =
     (case mkdir_error env of
        Some e \<Rightarrow> (clone_wrap e, [], w)
      | None \<Rightarrow>
          if dot_git w then
            (case pull_result env of
               Inl e \<Rightarrow> (clone_wrap (''Error pulling repository: '' @ e), [], ran pull_command w)
             | Inr (rc, err) \<Rightarrow>
                 if rc \<noteq> 0 then
                   (clone_wrap (''Error pulling repository: '' @ ''Git pull failed: '' @ err), [],
                    ran pull_command w)
                 else (Inr True, [], ran pull_command w))
          else
            (case cb of
               Some f \<Rightarrow>
                 (case f 0 100 of
                    Some e \<Rightarrow> (clone_wrap e, [(0, 100)], w)
                  | None \<Rightarrow>
                      (case clone_popen env of
                         Inl e \<Rightarrow>
                           (clone_wrap e, [(0, 100)], ran (clone_command_progress install_dir) w)
                       | Inr (lines, rc) \<Rightarrow>
                           if rc \<noteq> 0 then
                             (clone_wrap (clone_failure_message rc lines),
                              (0, 100) # scan_lines lines,
                              (ran (clone_command_progress install_dir) w)
                                \<lparr>dot_git := git_after_clone env\<rparr>)
                           else
                             (case f 100 100 of
                                Some e \<Rightarrow>
                                  (clone_wrap e, (0, 100) # scan_lines lines @ [(100, 100)],
                                   (ran (clone_command_progress install_dir) w)
                                     \<lparr>dot_git := git_after_clone env\<rparr>)
                              | None \<Rightarrow>
                                  (Inr True, (0, 100) # scan_lines lines @ [(100, 100)],
                                   (ran (clone_command_progress install_dir) w)
                                     \<lparr>dot_git := git_after_clone env\<rparr>))))
             | None \<Rightarrow>
                 (case clone_run env of
                    Inl e \<Rightarrow>
                      (clone_wrap (''Error during Git clone: '' @ e), [],
                       ran (clone_command_plain install_dir) w)
                  | Inr (rc, err) \<Rightarrow>
                      if rc \<noteq> 0 then
                        (clone_wrap (''Error during Git clone: '' @ ''Git clone failed: '' @ err), [],
                         (ran (clone_command_plain install_dir) w)
                           \<lparr>dot_git := git_after_clone env\<rparr>)
                      else
                        (Inr True, [],
                         (ran (clone_command_plain install_dir) w)
                           \<lparr>dot_git := git_after_clone env\<rparr>))))"

section \<open>Environment configurator\<close>

text \<open>
  \<^verbatim>\<open>setup_conda_env(conda_path, install_dir, enable_gpu, progress_callback)\<close>, lines 371 to
  484. \<open>conda_run\<close> gives for a command line what \<^verbatim>\<open>subprocess.run\<close> does: it fails to
  launch, or the program ends with a return code and a standard output. The other inputs
  are whether \<^verbatim>\<open>requirements.txt\<close> exists, whether writing it or the \<^verbatim>\<open>.pth\<close> file
  fails, and the directories that the walk over the install directory collects (lines 422
  to 436; the walk itself is not part of the model). The result comes with the commands run
  and the files written, in order.
\<close>

record conda_env =
  conda_run :: "string list \<Rightarrow> string + int \<times> string"
  requirements_exists :: bool
  write_requirements_error :: "string option"
  potential_dirs :: "string list"
  write_pth_error :: "string option"
  join_path :: "string \<Rightarrow> string \<Rightarrow> string"

datatype effect = Ran "string list" | Wrote string string

definition env_name :: string where
  "env_name = ''bitnet-cpp''"

definition list_command :: "string \<Rightarrow> string list" where
  "list_command conda_path = [conda_path, ''env'', ''list'']"

definition create_command :: "string \<Rightarrow> string list" where
  "create_command conda_path = [conda_path, ''create'', ''-n'', env_name, ''python=3.9'', ''-y'']"

definition pip_command :: "string \<Rightarrow> string \<Rightarrow> string list" where
  "pip_command conda_path requirements_path =
     [conda_path, ''run'', ''-n'', env_name, ''pip'', ''install'', ''-r'', requirements_path]"

definition site_packages_command :: "string \<Rightarrow> string list" where
  "site_packages_command conda_path =
     [conda_path, ''run'', ''-n'', env_name, ''python'', ''-c'',
      ''import site; print(site.getsitepackages()[0])'']"

definition verify_command :: "string \<Rightarrow> string list" where
  "verify_command conda_path =
     [conda_path, ''run'', ''-n'', env_name, ''python'', ''-c'',
      ''try:'' @ [CHR 0x0A] @ ''    import bitnet'' @ [CHR 0x0A] @
      ''    print('Import successful')'' @ [CHR 0x0A] @ ''except ImportError as e:'' @ [CHR 0x0A] @
      ''    print(f'Import failed: {e}')'']"

definition default_requirements :: string where
  "default_requirements =
     ''numpy>=1.20.0'' @ [CHR 0x0A] @ ''torch>=1.10.0'' @ [CHR 0x0A] @ ''tqdm>=4.62.0'' @ [CHR 0x0A] @
     ''scipy>=1.7.0'' @ [CHR 0x0A] @ ''matplotlib>=3.4.0'' @ [CHR 0x0A]"

text \<open>
  The two handlers at the end of the function: a \<^verbatim>\<open>CalledProcessError\<close> gives a message
  with the return code, any other exception a message with its text.
\<close>

definition conda_failed_code :: "int \<Rightarrow> exn + bool" where
  "conda_failed_code rc =
     Inl (InstallationError (''Conda environment setup failed with exit code '' @ str_int rc))"

definition conda_failed :: "string \<Rightarrow> exn + bool" where
  "conda_failed m = Inl (InstallationError (''Conda environment setup failed: '' @ m))"

text \<open>The part after the dependency installation: lines 415 to 478.\<close>

definition install_package_paths ::
  "conda_env \<Rightarrow> string \<Rightarrow> effect list \<Rightarrow> (exn + bool) \<times> effect list" where
  "install_package_paths env conda_path log =
     (if potential_dirs env = [] then (Inr True, log)
      else
        (case conda_run env (site_packages_command conda_path) of
           Inl e \<Rightarrow> (conda_failed e, log @ [Ran (site_packages_command conda_path)])
         | Inr (rc, out) \<Rightarrow>
             if rc \<noteq> 0 then
               (conda_failed_code rc, log @ [Ran (site_packages_command conda_path)])
             else
               (case write_pth_error env of
                  Some e \<Rightarrow> (conda_failed e, log @ [Ran (site_packages_command conda_path)])
                | None \<Rightarrow>
                    (case conda_run env (verify_command conda_path) of
                       Inl e \<Rightarrow>
                         (conda_failed e,
                          log @ [Ran (site_packages_command conda_path),
                                 Wrote (join_path env (strip out) ''bitnet.pth'')
                                   (concat (map (\<lambda>d. d @ [CHR 0x0A]) (potential_dirs env))),
                                 Ran (verify_command conda_path)])
                     | Inr (rc', out') \<Rightarrow>
                         (Inr True,
                          log @ [Ran (site_packages_command conda_path),
                                 Wrote (join_path env (strip out) ''bitnet.pth'')
                                   (concat (map (\<lambda>d. d @ [CHR 0x0A]) (potential_dirs env))),
                                 Ran (verify_command conda_path)])))))"

text \<open>The part from the manifest on: lines 396 to 413, then the part above.\<close>

definition install_requirements ::
  "conda_env \<Rightarrow> string \<Rightarrow> string \<Rightarrow> effect list \<Rightarrow> (exn + bool) \<times> effect list" where
  "install_requirements env conda_path install_dir log =
     (let requirements_path = join_path env install_dir ''requirements.txt'';
          written = (if requirements_exists env then Inr log
                     else (case write_requirements_error env of
                             Some e \<Rightarrow> Inl e
                           | None \<Rightarrow> Inr (log @ [Wrote requirements_path default_requirements])))
      in case written of
           Inl e \<Rightarrow> (conda_failed e, log)
         | Inr log' \<Rightarrow>
             (case conda_run env (pip_command conda_path requirements_path) of
                Inl e \<Rightarrow> (conda_failed e, log' @ [Ran (pip_command conda_path requirements_path)])
              | Inr (rc, out) \<Rightarrow>
                  if rc \<noteq> 0 then
                    (conda_failed_code rc,
                     log' @ [Ran (pip_command conda_path requirements_path)])
                  else
                    install_package_paths env conda_path
                      (log' @ [Ran (pip_command conda_path requirements_path)])))"

definition setup_conda_env ::
  "conda_env \<Rightarrow> string \<Rightarrow> string \<Rightarrow> (exn + bool) \<times> effect list" where
  "setup_conda_env env conda_path install_dir =
     (case conda_run env (list_command conda_path) of
        Inl e \<Rightarrow> (conda_failed e, [Ran (list_command conda_path)])
      | Inr (rc, out) \<Rightarrow>
          if rc \<noteq> 0 then (conda_failed_code rc, [Ran (list_command conda_path)])
          else if contains env_name out then
            install_requirements env conda_path install_dir [Ran (list_command conda_path)]
          else
            (case conda_run env (create_command conda_path) of
               Inl e \<Rightarrow>
                 (conda_failed e, [Ran (list_command conda_path), Ran (create_command conda_path)])
             | Inr (rc', out') \<Rightarrow>
                 if rc' \<noteq> 0 then
                   (conda_failed_code rc',
                    [Ran (list_command conda_path), Ran (create_command conda_path)])
                 else
                   install_requirements env conda_path install_dir
                     [Ran (list_command conda_path), Ran (create_command conda_path)]))"

section \<open>Launch script generator\<close>

text \<open>
  \<^verbatim>\<open>create_startup_script(install_dir, conda_path)\<close>, lines 486 to 530. The script goes
  to \<^verbatim>\<open>start_bitnet.bat\<close> beside the install directory; a failure to write it is an
  \<^verbatim>\<open>InstallationError\<close>. The text of the script is not part of the model.
\<close>

definition create_startup_script :: "host \<Rightarrow> string option \<Rightarrow> string \<Rightarrow> exn + string" where
  "create_startup_script h script_error install_dir =
     (case script_error of
        Some e \<Rightarrow> Inl (InstallationError (''Failed to create startup script: '' @ e))
      | None \<Rightarrow> Inr (path_join h (dirname h install_dir) ''start_bitnet.bat''))"

section \<open>Orchestration controller\<close>

text \<open>
  \<^verbatim>\<open>InstallerTab._install_bitnet_thread\<close>, lines 365 to 428 of
  \<^verbatim>\<open>installer_gui_tabs.py\<close>. The model keeps the values given to
  \<^verbatim>\<open>self.progress.config(value=...)\<close>, in order, and how the thread ends: with the path
  of the startup script, or with the text shown in the error dialog.

  The nested \<^verbatim>\<open>clone_progress(current, total)\<close> computes
  \<^verbatim>\<open>10 + int(current / total * 30)\<close>. \<^verbatim>\<open>int\<close> drops the fraction of its argument,
  towards zero. The source divides and multiplies in double precision; the model takes the
  exact quotient. On the calls that \<^verbatim>\<open>clone_bitnet\<close> makes for a percentage from 0 to
  100, with a total of 100, both give the same integer.
\<close>

definition int_trunc_quotient :: "int \<Rightarrow> int \<Rightarrow> int" where
  "int_trunc_quotient a b = sgn a * sgn b * (\<bar>a\<bar> div \<bar>b\<bar>)"

definition clone_progress :: "int \<Rightarrow> int \<Rightarrow> string + int" where
  "clone_progress current tot =
     (if tot = 0 then Inl ''division by zero''
      else Inr (10 + int_trunc_quotient (current * 30) tot))"

definition clone_progress_callback :: callback where
  "clone_progress_callback current tot =
     (case clone_progress current tot of Inl e \<Rightarrow> Some e | Inr v \<Rightarrow> None)"

definition progress_values :: "progress_call list \<Rightarrow> int list" where
  "progress_values calls =
     concat (map (\<lambda>(current, tot).
        case clone_progress current tot of Inl e \<Rightarrow> [] | Inr v \<Rightarrow> [v]) calls)"

definition str_exn :: "exn \<Rightarrow> string" where
  "str_exn e = (case e of InstallationError m \<Rightarrow> m | OtherException m \<Rightarrow> m)"

record thread_env =
  install_mkdir_error :: "string option"
  git :: git_env
  conda :: conda_env
  conda_path_setting :: string
  machine :: host
  write_script_error :: "string option"

definition install_bitnet_thread ::
  "thread_env \<Rightarrow> string \<Rightarrow> repo \<Rightarrow> (string + string) \<times> int list \<times> repo" where
  "install_bitnet_thread env install_dir w =
     (case install_mkdir_error env of
        Some e \<Rightarrow> (Inl e, [], w)
      | None \<Rightarrow>
          (case clone_bitnet (git env) install_dir (Some clone_progress_callback) w of
             (Inl e, calls, w') \<Rightarrow> (Inl (str_exn e), 10 # progress_values calls, w')
           | (Inr cloned, calls, w') \<Rightarrow>
               (case setup_conda_env (conda env) (conda_path_setting env) install_dir of
                  (Inl e, log) \<Rightarrow>
                    (Inl (str_exn e), 10 # progress_values calls @ 40 # [41..79], w')
                | (Inr configured, log) \<Rightarrow>
                    (case create_startup_script (machine env) (write_script_error env)
                            install_dir of
                       Inl e \<Rightarrow>
                         (Inl (str_exn e), 10 # progress_values calls @ 40 # [41..79] @ [80], w')
                     | Inr startup_path \<Rightarrow>
                         (Inr startup_path,
                          10 # progress_values calls @ 40 # [41..79] @ [80, 100], w')))))"

section \<open>Configuration file\<close>

text \<open>
  \<^verbatim>\<open>load_config()\<close> and \<^verbatim>\<open>save_config(config)\<close>, lines 74 to 100 of
  \<^verbatim>\<open>installer.py\<close>. A configuration is what \<^verbatim>\<open>json.load\<close> can return, without
  numbers that have a fraction. A Python dictionary keeps its keys in the order of their
  insertion, so an object is a list of pairs, and \<^verbatim>\<open>config[key] = value\<close> for a new key
  appends one.

  \<^verbatim>\<open>json.dump\<close> and \<^verbatim>\<open>json.load\<close> are library code: the file is modelled by the
  document it holds. It is absent, holds text that \<^verbatim>\<open>json.load\<close> rejects, or holds a
  document. \<open>readable\<close> and \<open>writable\<close> say whether opening it for reading and writing
  it succeed.
\<close>

datatype json =
    JNull
  | JBool bool
  | JInt int
  | JString string
  | JList "json list"
  | JObject "(string \<times> json) list"

datatype stored = Absent | Garbage | Document json

record store =
  config_file :: stored
  readable :: bool
  writable :: bool

text \<open>
  \<^verbatim>\<open>DEFAULT_CONFIG\<close>; its install directory is \<^verbatim>\<open>BitNet\<close> under the home directory of
  the user, a parameter here.
\<close>

definition DEFAULT_CONFIG :: "string \<Rightarrow> (string \<times> json) list" where
  "DEFAULT_CONFIG default_install_dir =
     [(''install_dir'', JString default_install_dir),
      (''conda_path'', JString []),
      (''git_path'', JString []),
      (''vs_path'', JString []),
      (''enable_gpu'', JBool True),
      (''create_shortcut'', JBool True),
      (''first_run'', JBool True)]"

definition save_config :: "json \<Rightarrow> store \<Rightarrow> bool \<times> store" where
  "save_config config st =
     (if writable st then (True, st\<lparr>config_file := Document config\<rparr>) else (False, st))"

text \<open>
  The loop \<^verbatim>\<open>for key, value in DEFAULT_CONFIG.items(): if key not in config:
  config[key] = value\<close> on whatever \<^verbatim>\<open>json.load\<close> returned. On a dictionary
  \<^verbatim>\<open>in\<close> looks for the key; on a list it looks for an equal element, on a string for a
  substring, and the assignment then raises \<^verbatim>\<open>TypeError\<close>; on anything else
  \<^verbatim>\<open>in\<close> itself raises it. \<^term>\<open>None\<close> is that exception.
\<close>

fun backfill :: "(string \<times> json) list \<Rightarrow> json \<Rightarrow> json option" where
  "backfill [] config = Some config"
| "backfill ((key, v) # defaults) (JObject kvs) =
     (if key \<in> set (map fst kvs) then backfill defaults (JObject kvs)
      else backfill defaults (JObject (kvs @ [(key, v)])))"
| "backfill ((key, v) # defaults) (JList xs) =
     (if JString key \<in> set xs then backfill defaults (JList xs) else None)"
| "backfill ((key, v) # defaults) (JString s) =
     (if contains key s then backfill defaults (JString s) else None)"
| "backfill ((key, v) # defaults) config = None"

definition load_config :: "string \<Rightarrow> store \<Rightarrow> json \<times> store" where
  "load_config default_install_dir st =
     (case (case config_file st of
              Absent \<Rightarrow> None
            | Garbage \<Rightarrow> None
            | Document config \<Rightarrow>
                if readable st then backfill (DEFAULT_CONFIG default_install_dir) config
                else None) of
        Some config \<Rightarrow> (config, st)
      | None \<Rightarrow>
          (JObject (DEFAULT_CONFIG default_install_dir),
           snd (save_config (JObject (DEFAULT_CONFIG default_install_dir)) st)))"

section \<open>Server supervisor\<close>

text \<open>
  \<^verbatim>\<open>ControlPanelTab.start_bitnet_server\<close> and the head of
  \<^verbatim>\<open>ControlPanelTab._start_server_thread\<close>, lines 259 to 291 of
  \<^verbatim>\<open>control_panel_tab.py\<close>. The panel holds the status shown (\<^verbatim>\<open>bitnet_status\<close>,
  initially \<^verbatim>\<open>Not Running\<close>), the texts appended to the output area and the error
  dialogs shown. The model runs the thread to its end in place of starting it.

  \<^verbatim>\<open>installer_core.py\<close> has no \<^verbatim>\<open>find_conda\<close>, so the call \<^verbatim>\<open>core.find_conda()\<close>
  raises \<^verbatim>\<open>AttributeError\<close>, which the handler of the thread catches like any other
  exception. What the thread does from line 292 on, handler included, is the parameter
  \<open>launch\<close>.
\<close>

datatype status = NotRunning | Starting | Ready | Stopped | Error

record panel =
  bitnet_status :: status
  output_text :: "string list"
  error_dialogs :: "string list"

record settings =
  install_dir_setting :: "string option"
  conda_path_value :: "string option"

definition thread_failed :: "string \<Rightarrow> panel \<Rightarrow> panel" where
  "thread_failed m p =
     p\<lparr>output_text := output_text p @ [''Error: '' @ m @ [CHR 0x0A]], bitnet_status := Error\<rparr>"

definition start_server_thread :: "settings \<Rightarrow> host \<Rightarrow> (panel \<Rightarrow> panel) \<Rightarrow> panel \<Rightarrow> panel" where
  "start_server_thread cfg h launch p =
     (case (conda_path_value cfg, install_dir_setting cfg) of
        (Some conda_path, Some install_dir) \<Rightarrow>
          if conda_path = [] \<or> install_dir = [] then
            thread_failed ''Missing conda path or installation directory.'' p
          else if \<not> path_exists h conda_path then
            thread_failed (''module 'installer_core' has no attribute 'find_conda'' @ [CHR 0x27]) p
          else launch p
      | _ \<Rightarrow> thread_failed ''Missing conda path or installation directory.'' p)"

definition start_bitnet_server :: "settings \<Rightarrow> host \<Rightarrow> (panel \<Rightarrow> panel) \<Rightarrow> panel \<Rightarrow> panel" where
  "start_bitnet_server cfg h launch p =
     (let install_dir = (case install_dir_setting cfg of None \<Rightarrow> [] | Some d \<Rightarrow> d) in
      if install_dir = [] \<or> \<not> path_exists h install_dir then
        p\<lparr>error_dialogs := error_dialogs p @ [''BitNet is not installed. Please install it first.'']\<rparr>
      else start_server_thread cfg h launch (p\<lparr>bitnet_status := Starting\<rparr>))"

section \<open>Sample environments\<close>

text \<open>
  Concrete inputs on which the model is run further down: a response with a body of five
  bytes, and a download that reads it.
\<close>

definition sample_response :: "string option \<Rightarrow> response" where
  "sample_response h = \<lparr>content_length = h, body = ''hello'', read_error = (\<lambda>k. None)\<rparr>"

definition sample_download :: "string option \<Rightarrow> string option \<Rightarrow> download_env" where
  "sample_download mk h =
     \<lparr>makedirs_error = mk, urlopen_result = Inr (sample_response h),
      open_error = None, write_error = (\<lambda>k. None)\<rparr>"

section \<open>Substrings\<close>

text \<open>The two recursive tests compute what their names say.\<close>

lemma startswith_iff: "startswith s p \<longleftrightarrow> (\<exists>post. s = p @ post)"
  by (induction s p rule: startswith.induct) auto

lemma contains_iff: "contains sub s \<longleftrightarrow> (\<exists>pre post. s = pre @ sub @ post)"
proof (induction s)
  case Nil
  then show ?case by auto
next
  case (Cons c cs)
  show ?case
  proof
    assume "contains sub (c # cs)"
    then consider "startswith (c # cs) sub" | "contains sub cs" by auto
    then show "\<exists>pre post. c # cs = pre @ sub @ post"
    proof cases
      case 1
      then obtain post where "c # cs = sub @ post" by (auto simp: startswith_iff)
      then have "c # cs = [] @ sub @ post" by simp
      then show ?thesis by blast
    next
      case 2
      then obtain pre post where "cs = pre @ sub @ post" using Cons.IH by auto
      then have "c # cs = (c # pre) @ sub @ post" by simp
      then show ?thesis by blast
    qed
  next
    assume "\<exists>pre post. c # cs = pre @ sub @ post"
    then obtain pre post where eq: "c # cs = pre @ sub @ post" by blast
    show "contains sub (c # cs)"
    proof (cases pre)
      case Nil
      with eq have "startswith (c # cs) sub" by (auto simp: startswith_iff)
      then show ?thesis by simp
    next
      case (Cons a pre')
      with eq have "cs = pre' @ sub @ post" by simp
      then have "contains sub cs" using Cons.IH by blast
      then show ?thesis by simp
    qed
  qed
qed

lemma contains_lower:
  assumes "contains sub s" and "lower sub = sub"
  shows "contains sub (lower s)"
proof -
  from assms(1) obtain pre post where "s = pre @ sub @ post" by (auto simp: contains_iff)
  then have "lower s = lower pre @ sub @ lower post" using assms(2) by (simp add: lower_def)
  then show ?thesis unfolding contains_iff by blast
qed

section \<open>Properties of the downloader\<close>

text \<open>
  The loop, when it ends without an exception: the invocations it adds have strictly
  increasing first components, all above the count it started from, the second component is
  \<^verbatim>\<open>file_size\<close> throughout, and the last first component is the count it started from
  plus the length of what was left to read. With nothing left to read it adds none.
\<close>

lemma fetch_chunks_calls:
  assumes "0 < C"
    and "fetch_chunks C rd wr (Some f) fs k rest d calls = (None, calls')"
  shows "\<exists>new. calls' = calls @ new \<and> sorted_wrt (<) (map fst new) \<and>
           (\<forall>c\<in>set new. d < fst c \<and> snd c = fs) \<and>
           (if new = [] then rest = [] else fst (last new) = d + int (length rest))"
  using assms
proof (induction C rd wr "Some f :: callback option" fs k rest d calls arbitrary: calls'
       rule: fetch_chunks.induct)
  case (1 C rd wr fs k rest d calls)
  show ?case
  proof (cases "rd k")
    case (Some e)
    with "1.prems" show ?thesis by (simp add: fetch_chunks.simps)
  next
    case rdNone: None
    show ?thesis
    proof (cases "take C rest = []")
      case True
      with rdNone "1.prems" have "calls' = calls" "rest = []"
        by (auto simp: fetch_chunks.simps)
      then show ?thesis by simp
    next
      case nonempty: False
      show ?thesis
      proof (cases "wr k")
        case (Some e)
        with rdNone nonempty "1.prems" show ?thesis by (simp add: fetch_chunks.simps)
      next
        case wrNone: None
        let ?d' = "d + int (length (take C rest))"
        show ?thesis
        proof (cases "f ?d' fs")
          case (Some e)
          with rdNone nonempty wrNone "1.prems" show ?thesis by (simp add: fetch_chunks.simps)
        next
          case fNone: None
          have rec: "fetch_chunks C rd wr (Some f) fs (Suc k) (drop C rest) ?d' (calls @ [(?d', fs)])
                     = (None, calls')"
            using rdNone nonempty wrNone fNone "1.prems"(2)
            by (simp add: fetch_chunks.simps [of C rd wr "Some f" fs k rest d calls])
          from "1.hyps"(2) [OF rdNone nonempty wrNone refl fNone "1.prems"(1) rec]
          obtain new where new: "calls' = (calls @ [(?d', fs)]) @ new"
            "sorted_wrt (<) (map fst new)"
            "\<forall>c\<in>set new. ?d' < fst c \<and> snd c = fs"
            "if new = [] then drop C rest = [] else fst (last new) = ?d' + int (length (drop C rest))"
            by blast
          have pos: "0 < length (take C rest)" using nonempty by simp
          have len: "int (length (take C rest)) + int (length (drop C rest)) = int (length rest)"
            by (metis append_take_drop_id length_append of_nat_add)
          let ?new = "(?d', fs) # new"
          have "calls' = calls @ ?new" using new(1) by simp
          moreover have "sorted_wrt (<) (map fst ?new)" using new(2,3) by auto
          moreover have "\<forall>c\<in>set ?new. d < fst c \<and> snd c = fs" using new(3) pos by auto
          moreover have "fst (last ?new) = d + int (length rest)"
          proof (cases "new = []")
            case True
            with new(4) have "drop C rest = []" by simp
            with len show ?thesis using True by simp
          next
            case False
            with new(4) len show ?thesis by simp
          qed
          ultimately show ?thesis by (intro exI [of _ ?new]) simp
        qed
      qed
    qed
  qed
qed

text \<open>
  Once \<^verbatim>\<open>os.makedirs\<close> has succeeded nothing is raised: the function returns
  \<^verbatim>\<open>True\<close> or \<^verbatim>\<open>False\<close>, whatever the network, the file and the callback do.
\<close>

lemma download_file_with_returns:
  assumes "makedirs_error env = None"
  shows "\<exists>b. fst (download_file_with C env cb) = Inr b"
  using assms
  by (auto simp: download_file_with_def split: option.splits sum.splits prod.splits)

lemma sample_download_run:
  "download_file_with 2 (sample_download None (Some ''5'')) (Some (\<lambda>c t. None)) =
     (Inr True, [(0, 5), (2, 5), (4, 5), (5, 5)])"
  by (simp add: download_file_with_def sample_download_def sample_response_def py_int_def
      strip_def isspace_def unsigned_int_def isdigit_def digit_value_def fetch_chunks.simps)

lemma sample_download_run_unknown:
  "download_file_with 2 (sample_download None None) (Some (\<lambda>c t. None)) =
     (Inr True, [(0, 0), (2, 0), (4, 0), (5, 0)])"
  by (simp add: download_file_with_def sample_download_def sample_response_def fetch_chunks.simps)

text \<open>
  Claim C5. The claim: for every input the download never raises to its caller; on any
  failure, a failure to create the parent directory of the destination included, it returns
  \<^verbatim>\<open>False\<close>. The code calls \<^verbatim>\<open>os.makedirs\<close> before its \<^verbatim>\<open>try\<close> block: when the
  directory cannot be created, here with access denied, the exception of \<^verbatim>\<open>os.makedirs\<close>
  leaves \<^verbatim>\<open>download_file\<close>, and no value is returned.
\<close>

theorem download_file_makedirs_raises:
  "download_file (sample_download (Some ''[WinError 5] Access is denied'') (Some ''5'')) cb =
     (Inl (OtherException ''[WinError 5] Access is denied''), [])"
  by (simp add: download_file_def download_file_with_def sample_download_def)

text \<open>
  Claim C8. For every download that succeeds, with a callback and a chunk size above zero
  (the chunk size of the source is \<^verbatim>\<open>1024 * 1024\<close>), of a file of \<open>N\<close> bytes: the
  callback is invoked at least once, the first components of its invocations increase
  strictly, and the last one is \<open>N\<close>; when the response has no \<^verbatim>\<open>Content-Length\<close>, the
  second component of every invocation is 0.
\<close>

theorem download_progress_sequence:
  assumes "0 < chunk_size"
    and "urlopen_result env = Inr resp"
    and "download_file_with chunk_size env (Some f) = (Inr True, calls)"
  shows "calls \<noteq> [] \<and> sorted_wrt (<) (map fst calls) \<and>
         fst (last calls) = int (length (body resp)) \<and>
         (content_length resp = None \<longrightarrow> (\<forall>c\<in>set calls. snd c = 0))"
proof -
  from assms(2,3) obtain fs where
    fs: "(case content_length resp of None \<Rightarrow> Some 0 | Some h \<Rightarrow> py_int h) = Some fs"
    and loop: "fetch_chunks chunk_size (read_error resp) (write_error env) (Some f) fs 0
                 (body resp) 0 [(0, fs)] = (None, calls)"
    by (auto simp: download_file_with_def split: option.splits sum.splits prod.splits if_splits)
  from fetch_chunks_calls [OF assms(1) loop] obtain new where new:
    "calls = [(0, fs)] @ new" "sorted_wrt (<) (map fst new)"
    "\<forall>c\<in>set new. 0 < fst c \<and> snd c = fs"
    "if new = [] then body resp = [] else fst (last new) = 0 + int (length (body resp))"
    by blast
  have "calls \<noteq> []" using new(1) by simp
  moreover have "sorted_wrt (<) (map fst calls)" using new(1,2,3) by auto
  moreover have "fst (last calls) = int (length (body resp))"
    using new(1,4) by (cases "new = []") auto
  moreover have "content_length resp = None \<longrightarrow> (\<forall>c\<in>set calls. snd c = 0)"
    using fs new(1,3) by auto
  ultimately show ?thesis by blast
qed

theorem download_progress_sequence_witness:
  "download_file_with 2 (sample_download None (Some ''5'')) (Some (\<lambda>c t. None)) =
     (Inr True, [(0, 5), (2, 5), (4, 5), (5, 5)]) \<and>
   sorted_wrt (<) (map fst ([(0, 5), (2, 5), (4, 5), (5, 5)] :: progress_call list)) \<and>
   fst (last ([(0, 5), (2, 5), (4, 5), (5, 5)] :: progress_call list)) = int (length ''hello'') \<and>
   download_file_with 2 (sample_download None None) (Some (\<lambda>c t. None)) =
     (Inr True, [(0, 0), (2, 0), (4, 0), (5, 0)]) \<and>
   map snd ([(0, 0), (2, 0), (4, 0), (5, 0)] :: progress_call list) = [0, 0, 0, 0]"
  using download_progress_sequence [of 2 "sample_download None (Some ''5'')"
           "sample_response (Some ''5'')" "\<lambda>c t. None" "[(0, 5), (2, 5), (4, 5), (5, 5)]"]
        download_progress_sequence [of 2 "sample_download None None"
           "sample_response None" "\<lambda>c t. None" "[(0, 0), (2, 0), (4, 0), (5, 0)]"]
        sample_download_run sample_download_run_unknown
  by (simp add: sample_download_def sample_response_def)

end
